theory Spec2Isabelle
  imports Complex_Main
begin

section \<open>Principals and HTTP errors\<close>

text \<open>
  The middlewares receive the authenticated user as a Python dict. The keys of a
  principal are \<^verbatim>\<open>id\<close>, \<^verbatim>\<open>tenant_id\<close>, \<^verbatim>\<open>tenant_type\<close>, \<^verbatim>\<open>role\<close>,
  \<^verbatim>\<open>permissions\<close> and \<^verbatim>\<open>is_super_admin\<close>; each may be missing, so each field is
  optional and \<open>None\<close> stands for a missing key (\<^verbatim>\<open>dict.get\<close> then returns its default).
  \<open>other_keys\<close> lists whatever other keys the dict has; the middlewares never read
  them, but a dict with a key is not empty. The argument \<^verbatim>\<open>current_user\<close> itself may
  be \<^verbatim>\<open>None\<close>, which is \<open>None\<close> of \<open>user option\<close>.
\<close>

record user =
  user_id :: "string option"
  tenant_id :: "string option"
  tenant_type :: "string option"
  role :: "string option"
  permissions :: "string list option"
  is_super_admin :: "bool option"
  other_keys :: "string list"

text \<open>The dict with no key at all, \<^verbatim>\<open>{}\<close>.\<close>

definition empty_dict :: user where
  "empty_dict = \<lparr>user_id = None, tenant_id = None, tenant_type = None, role = None,
     permissions = None, is_super_admin = None, other_keys = []\<rparr>"

text \<open>
  \<^verbatim>\<open>not current_user\<close>: Python's truth test of the argument. \<^verbatim>\<open>None\<close> and the empty
  dict are false, every dict with a key is true.
\<close>

definition not_user :: "user option \<Rightarrow> bool" where
  "not_user current_user =
     (case current_user of None \<Rightarrow> True | Some u \<Rightarrow> u = empty_dict)"

text \<open>
  \<^verbatim>\<open>HTTPException(status_code=...)\<close>: the two status codes the checkers raise. The
  detail text is left out.
\<close>

datatype http_exception = HTTP_401_UNAUTHORIZED | HTTP_403_FORBIDDEN

section \<open>tenant.py\<close>

subsection \<open>\<^verbatim>\<open>TenantHierarchy.can_access\<close>\<close>

definition can_access :: "string \<Rightarrow> string \<Rightarrow> string \<Rightarrow> string \<Rightarrow> bool" where
  "can_access requester_tenant_id requester_type target_tenant_id target_type =
     (if requester_tenant_id = target_tenant_id then True
      else if requester_type = ''root'' then True
      else if requester_type = ''provider''
        then target_type \<in> set [''customer'', ''sub_customer'']
      else if requester_type = ''customer'' then target_type = ''sub_customer''
      else False)"

subsection \<open>\<^verbatim>\<open>require_tenant_access\<close>\<close>

text \<open>The dict \<^verbatim>\<open>hierarchy\<close> of \<^verbatim>\<open>tenant_checker\<close>, in the order it is written.\<close>

definition hierarchy :: "(string \<times> nat) list" where
  "hierarchy = [(''root'', 4), (''provider'', 3), (''customer'', 2), (''sub_customer'', 1)]"

text \<open>
  \<^verbatim>\<open>hierarchy.get(k, 0)\<close>, where \<open>k\<close> is a string or \<^verbatim>\<open>None\<close> (which is no key of the
  dict).
\<close>

definition hierarchy_get :: "string option \<Rightarrow> nat" where
  "hierarchy_get k =
     (case k of None \<Rightarrow> 0
      | Some s \<Rightarrow> (case map_of hierarchy s of None \<Rightarrow> 0 | Some n \<Rightarrow> n))"

text \<open>
  \<^verbatim>\<open>if required_level:\<close> is the truth test of a string or \<^verbatim>\<open>None\<close>: false for
  \<^verbatim>\<open>None\<close> and for the empty string.
\<close>

definition truthy_str :: "string option \<Rightarrow> bool" where
  "truthy_str s = (case s of None \<Rightarrow> False | Some t \<Rightarrow> t \<noteq> [])"

text \<open>
  \<^verbatim>\<open>require_tenant_access(required_level)(current_user)\<close>: the closure
  \<^verbatim>\<open>tenant_checker\<close> applied to the user. \<open>Inl\<close> is the exception raised, \<open>Inr\<close> the
  user returned.
\<close>

definition require_tenant_access :: "string option \<Rightarrow> user option \<Rightarrow> http_exception + user" where
  "require_tenant_access required_level current_user =
     (if not_user current_user then Inl HTTP_401_UNAUTHORIZED
      else
        let u = the current_user;
            tenant_type' = tenant_type u
        in if truthy_str required_level
              \<and> hierarchy_get tenant_type' < hierarchy_get required_level
           then Inl HTTP_403_FORBIDDEN
           else Inr u)"

section \<open>rbac.py\<close>

text \<open>\<^verbatim>\<open>current_user.get("permissions", [])\<close>\<close>

definition user_permissions :: "user \<Rightarrow> string list" where
  "user_permissions u = (case permissions u of None \<Rightarrow> [] | Some ps \<Rightarrow> ps)"

text \<open>
  The names bound in the module: what it imports
  (\<^verbatim>\<open>from typing import Callable, List, Optional\<close>,
  \<^verbatim>\<open>from fastapi import Request, HTTPException, status\<close>,
  \<^verbatim>\<open>from sqlalchemy.orm import Session\<close>) and what it defines.
\<close>

definition rbac_globals :: "string list" where
  "rbac_globals =
     [''Callable'', ''List'', ''Optional'', ''Request'', ''HTTPException'', ''status'',
      ''Session'', ''Permissions'', ''DEFAULT_ROLE_PERMISSIONS'', ''RBACMiddleware'',
      ''require_permission'', ''require_any_permission'', ''require_all_permissions'',
      ''ResourceAccessControl'', ''AccessAuditLogger'']"

datatype name_error = NameError string

text \<open>
  The default value \<^verbatim>\<open>Depends(get_db)\<close> of the parameter \<^verbatim>\<open>db\<close> of each inner
  function. Python evaluates a default when the \<^verbatim>\<open>def\<close> statement runs, which for
  an inner function is each call of the outer one; the callee \<^verbatim>\<open>Depends\<close> is looked
  up first, then the argument \<^verbatim>\<open>get_db\<close>. Neither is a builtin.
\<close>

definition default_db :: "name_error + unit" where
  "default_db =
     (if ''Depends'' \<notin> set rbac_globals then Inl (NameError ''Depends'')
      else if ''get_db'' \<notin> set rbac_globals then Inl (NameError ''get_db'')
      else Inr ())"

text \<open>The body of the inner function \<^verbatim>\<open>permission_checker\<close> of \<^verbatim>\<open>require_permission\<close>.\<close>

definition permission_checker :: "string \<Rightarrow> user option \<Rightarrow> http_exception + user" where
  "permission_checker permission current_user =
     (if not_user current_user then Inl HTTP_401_UNAUTHORIZED
      else
        let u = the current_user in
        if role u = Some ''admin'' then Inr u
        else if permission \<notin> set (user_permissions u) then Inl HTTP_403_FORBIDDEN
        else Inr u)"

text \<open>The body of the inner function of \<^verbatim>\<open>require_any_permission\<close>.\<close>

definition any_permission_checker :: "string list \<Rightarrow> user option \<Rightarrow> http_exception + user" where
  "any_permission_checker perms current_user =
     (if not_user current_user then Inl HTTP_401_UNAUTHORIZED
      else
        let u = the current_user in
        if role u = Some ''admin'' then Inr u
        else if \<not> list_ex (\<lambda>p. p \<in> set (user_permissions u)) perms
          then Inl HTTP_403_FORBIDDEN
        else Inr u)"

text \<open>The body of the inner function of \<^verbatim>\<open>require_all_permissions\<close>.\<close>

definition all_permissions_checker :: "string list \<Rightarrow> user option \<Rightarrow> http_exception + user" where
  "all_permissions_checker perms current_user =
     (if not_user current_user then Inl HTTP_401_UNAUTHORIZED
      else
        let u = the current_user in
        if role u = Some ''admin'' then Inr u
        else if \<not> list_all (\<lambda>p. p \<in> set (user_permissions u)) perms
          then Inl HTTP_403_FORBIDDEN
        else Inr u)"

text \<open>
  The three outer functions: each runs the \<^verbatim>\<open>def\<close> of its inner function, which
  evaluates the default of \<^verbatim>\<open>db\<close>, and returns the inner function.
\<close>

definition require_permission ::
  "string \<Rightarrow> name_error + (user option \<Rightarrow> http_exception + user)" where
  "require_permission permission =
     (case default_db of Inl e \<Rightarrow> Inl e | Inr _ \<Rightarrow> Inr (permission_checker permission))"

definition require_any_permission ::
  "string list \<Rightarrow> name_error + (user option \<Rightarrow> http_exception + user)" where
  "require_any_permission perms =
     (case default_db of Inl e \<Rightarrow> Inl e | Inr _ \<Rightarrow> Inr (any_permission_checker perms))"

definition require_all_permissions ::
  "string list \<Rightarrow> name_error + (user option \<Rightarrow> http_exception + user)" where
  "require_all_permissions perms =
     (case default_db of Inl e \<Rightarrow> Inl e | Inr _ \<Rightarrow> Inr (all_permissions_checker perms))"

subsection \<open>\<^verbatim>\<open>ResourceAccessControl.can_access_resource\<close>\<close>

text \<open>\<^verbatim>\<open>str(user.get("tenant_id"))\<close>: a missing tenant id prints as \<^verbatim>\<open>None\<close>.\<close>

definition py_str :: "string option \<Rightarrow> string" where
  "py_str v = (case v of None \<Rightarrow> ''None'' | Some s \<Rightarrow> s)"

text \<open>\<^verbatim>\<open>if user.get("is_super_admin"):\<close> the truth test of a bool or \<^verbatim>\<open>None\<close>.\<close>

definition truthy_bool :: "bool option \<Rightarrow> bool" where
  "truthy_bool b = (case b of None \<Rightarrow> False | Some v \<Rightarrow> v)"

definition can_access_resource :: "user \<Rightarrow> string \<Rightarrow> string \<Rightarrow> bool" where
  "can_access_resource u resource_tenant_id permission =
     (if truthy_bool (is_super_admin u) then True
      else if py_str (tenant_id u) \<noteq> resource_tenant_id then False
      else if role u = Some ''admin'' then True
      else permission \<in> set (user_permissions u))"

section \<open>inventory.py: strings\<close>

text \<open>\<^verbatim>\<open>s.startswith(p)\<close>, the test \<^verbatim>\<open>str.find\<close> and \<^verbatim>\<open>str.replace\<close> make at a position.\<close>

fun startswith :: "string \<Rightarrow> string \<Rightarrow> bool" where
  "startswith [] s = True"
| "startswith (p # ps) [] = False"
| "startswith (p # ps) (c # cs) = (p = c \<and> startswith ps cs)"

text \<open>
  \<^verbatim>\<open>s.replace(old, new)\<close>: the occurrences of \<open>old\<close> are found from the left and do
  not overlap; the search goes on after the text just replaced. For the empty \<open>old\<close>
  Python puts \<open>new\<close> before every character and at the end.
\<close>

function str_replace :: "string \<Rightarrow> string \<Rightarrow> string \<Rightarrow> string" where
  "str_replace old new [] = (if old = [] then new else [])"
| "str_replace old new (c # cs) =
     (if old = [] then new @ c # str_replace old new cs
      else if startswith old (c # cs)
        then new @ str_replace old new (drop (length old) (c # cs))
      else c # str_replace old new cs)"
  by pat_completeness auto
termination
  by (relation "measure (\<lambda>(old, new, s). length s)") auto

text \<open>\<^verbatim>\<open>sep.join(xs)\<close>\<close>

fun str_join :: "string \<Rightarrow> string list \<Rightarrow> string" where
  "str_join sep [] = []"
| "str_join sep [x] = x"
| "str_join sep (x # y # ys) = x @ sep @ str_join sep (y # ys)"

text \<open>\<^verbatim>\<open>s.find(sub)\<close>: the lowest index where \<open>sub\<close> starts, \<open>-1\<close> when there is none.\<close>

fun str_find :: "string \<Rightarrow> string \<Rightarrow> int" where
  "str_find sub [] = (if sub = [] then 0 else -1)"
| "str_find sub (c # cs) =
     (if startswith sub (c # cs) then 0
      else let r = str_find sub cs in if r < 0 then -1 else r + 1)"

text \<open>\<^verbatim>\<open>s.rfind(sub)\<close>: the highest index where \<open>sub\<close> starts, \<open>-1\<close> when there is none.\<close>

fun str_rfind :: "string \<Rightarrow> string \<Rightarrow> int" where
  "str_rfind sub [] = (if sub = [] then 0 else -1)"
| "str_rfind sub (c # cs) =
     (let r = str_rfind sub cs in
      if 0 \<le> r then r + 1
      else if startswith sub (c # cs) then 0 else -1)"

text \<open>
  \<^verbatim>\<open>s[i:j]\<close>: a negative bound counts from the end, and both bounds are clamped to
  the string.
\<close>

definition slice_bound :: "string \<Rightarrow> int \<Rightarrow> nat" where
  "slice_bound s k =
     (if k < 0 then nat (max 0 (int (length s) + k)) else min (nat k) (length s))"

definition str_slice :: "string \<Rightarrow> int \<Rightarrow> int \<Rightarrow> string" where
  "str_slice s i j = take (slice_bound s j - slice_bound s i) (drop (slice_bound s i) s)"

text \<open>\<^verbatim>\<open>value or "Unknown"\<close> for an optional string: \<^verbatim>\<open>None\<close> and \<^verbatim>\<open>""\<close> are false.\<close>

definition or_unknown :: "string option \<Rightarrow> string" where
  "or_unknown v = (case v of None \<Rightarrow> ''Unknown'' | Some s \<Rightarrow> if s = [] then ''Unknown'' else s)"

section \<open>inventory.py: data\<close>

datatype Decision = APPROVE | REJECT | PENDING | FLAG

text \<open>
  A Python float: a finite value (the real it denotes), an infinity with its sign, or
  not-a-number.
\<close>

datatype pyfloat = Finite real | Infinity bool | NaN

text \<open>The values \<^verbatim>\<open>response.json()\<close> and \<^verbatim>\<open>json.loads\<close> return.\<close>

datatype json =
  JNull | JBool bool | JInt int | JFloat pyfloat | JStr string
  | JArr "json list" | JObj "(string \<times> json) list"

text \<open>
  The exceptions of the \<^verbatim>\<open>try\<close> block. \<open>ValueError v\<close> is the one \<^verbatim>\<open>Decision(v)\<close>
  raises for a value \<open>v\<close> that no member has. \<open>LibraryError\<close> is any exception a
  library raises (httpx, json, pydantic), with its text. All of them derive from
  \<^verbatim>\<open>Exception\<close>.
\<close>

datatype exception =
  KeyError string | IndexError | TypeError | AttributeError | ValueError json
  | LibraryError string

record EquipmentData =
  external_id :: "string option"
  hostname :: "string option"
  ip_address :: "string option"
  mac_address :: "string option"
  os :: "string option"
  os_version :: "string option"
  asset_type :: "string option"
  manufacturer :: "string option"
  model :: "string option"
  serial_number :: "string option"
  location :: "string option"
  department :: "string option"
  owner :: "string option"
  tags :: "string list"
  metadata :: "(string \<times> json) list"
  source :: string

record AIConfig =
  provider :: string
  api_url :: "string option"
  api_key :: "string option"
  model :: string
  temperature :: pyfloat
  max_tokens :: int
  prompt_template :: string
  timeout_seconds :: int

record AIOutput =
  decision :: Decision
  comments :: string
  confidence :: pyfloat
  suggested_tags :: "string list"
  suggested_risk_score :: int
  suggested_asset_type :: "string option"

text \<open>
  What the interpreter and the libraries do, taken as parameters:
  \<^item> \<open>http_post url payload headers\<close> is \<^verbatim>\<open>client.post\<close>, \<^verbatim>\<open>raise_for_status\<close> and
    \<^verbatim>\<open>response.json()\<close> together: the decoded body, or the exception one of them
    raises (no connection, timeout, a status that is not 2xx, a body that is no JSON);
  \<^item> \<open>json_loads\<close> is \<^verbatim>\<open>json.loads\<close>;
  \<^item> \<open>float_conv\<close> and \<open>int_conv\<close> are \<^verbatim>\<open>float(v)\<close> and \<^verbatim>\<open>int(v)\<close> where the
    result depends on parsing or rounding;
  \<^item> \<open>coerce_str\<close> is what pydantic makes of a value that is no string for a field
    of type \<^verbatim>\<open>str\<close>;
  \<^item> \<open>exc_str\<close> is \<^verbatim>\<open>str(e)\<close>.
\<close>

record runtime =
  http_post :: "string \<Rightarrow> json \<Rightarrow> (string \<times> string option) list \<Rightarrow> exception + json"
  json_loads :: "string \<Rightarrow> exception + json"
  float_conv :: "json \<Rightarrow> exception + pyfloat"
  int_conv :: "json \<Rightarrow> exception + int"
  coerce_str :: "json \<Rightarrow> exception + string"
  exc_str :: "exception \<Rightarrow> string"

text \<open>An exception ends the block: the rest runs only on a value.\<close>

definition and_then :: "exception + 'a \<Rightarrow> ('a \<Rightarrow> exception + 'b) \<Rightarrow> exception + 'b" where
  "and_then m f = (case m of Inl e \<Rightarrow> Inl e | Inr x \<Rightarrow> f x)"

section \<open>inventory.py: \<^verbatim>\<open>AIService\<close>\<close>

definition DEFAULT_PROMPT :: string where
  "DEFAULT_PROMPT =
     ''You are a cybersecurity expert analyzing equipment for inclusion in an inventory system.\<newline>'' @
     ''\<newline>'' @
     ''Analyze the following equipment data and decide if it should be added to the inventory:\<newline>'' @
     ''\<newline>'' @
     ''## Equipment Data:\<newline>'' @
     ''- Hostname: {hostname}\<newline>'' @
     ''- IP Address: {ip_address}\<newline>'' @
     ''- MAC Address: {mac_address}\<newline>'' @
     ''- Operating System: {os} {os_version}\<newline>'' @
     ''- Asset Type: {asset_type}\<newline>'' @
     ''- Manufacturer: {manufacturer}\<newline>'' @
     ''- Model: {model}\<newline>'' @
     ''- Serial Number: {serial_number}\<newline>'' @
     ''- Location: {location}\<newline>'' @
     ''- Department: {department}\<newline>'' @
     ''- Owner: {owner}\<newline>'' @
     ''- Tags: {tags}\<newline>'' @
     ''- Source: {source}\<newline>'' @
     ''\<newline>'' @
     ''## Decision Criteria:\<newline>'' @
     ''1. Is this a legitimate enterprise asset?\<newline>'' @
     ''2. Does it have proper identification (hostname, IP)?\<newline>'' @
     ''3. Is the OS recognized and supported?\<newline>'' @
     ''4. Are there any security concerns?\<newline>'' @
     ''\<newline>'' @
     ''## Output Format (JSON only):\<newline>'' @
     ''{{{{\<newline>'' @
     ''    \"decision\": \"approved\" | \"rejected\" | \"pending\" | \"flag\",\<newline>'' @
     ''    \"comments\": \"Brief explanation of decision\",\<newline>'' @
     ''    \"confidence\": 0.0-1.0,\<newline>'' @
     ''    \"suggested_tags\": [\"tag1\", \"tag2\"],\<newline>'' @
     ''    \"suggested_risk_score\": 0-100,\<newline>'' @
     ''    \"suggested_asset_type\": \"server\" | \"workstation\" | \"network\" | \"cloud\" | \"iot\" | \"other\"\<newline>'' @
     ''}}}}\<newline>'' @
     ''\<newline>'' @
     ''Respond with ONLY valid JSON, no other text.''"

text \<open>
  The object \<^verbatim>\<open>AIService.__init__\<close> builds: the configuration and the provider
  name in lower case.
\<close>

record AIService =
  config :: AIConfig
  provider :: string

text \<open>\<^verbatim>\<open>s.lower()\<close> on the ASCII letters, which is all a provider name is compared with.\<close>

definition lower_char :: "char \<Rightarrow> char" where
  "lower_char c =
     (case map_of (zip ''ABCDEFGHIJKLMNOPQRSTUVWXYZ'' ''abcdefghijklmnopqrstuvwxyz'') c of
        None \<Rightarrow> c
      | Some l \<Rightarrow> l)"

definition AIService_init :: "AIConfig \<Rightarrow> AIService" where
  "AIService_init cfg = \<lparr>config = cfg, provider = map lower_char (AIConfig.provider cfg)\<rparr>"

text \<open>\<^verbatim>\<open>PROVIDERS.get(provider, {}).get("api_url", "")\<close>\<close>

definition PROVIDERS_api_url :: "(string \<times> string) list" where
  "PROVIDERS_api_url =
     [(''openai'', ''https://api.openai.com/v1/chat/completions''),
      (''anthropic'', ''https://api.anthropic.com/v1/complete''),
      (''ollama'', ''http://localhost:11434/api/generate''),
      (''groq'', ''https://api.groq.com/openai/v1/chat/completions''),
      (''deepseek'', ''https://api.deepseek.com/chat/completions'')]"

definition provider_api_url :: "string \<Rightarrow> string" where
  "provider_api_url p = (case map_of PROVIDERS_api_url p of None \<Rightarrow> [] | Some u \<Rightarrow> u)"

text \<open>
  \<^verbatim>\<open>_get_headers\<close>. A header value is a string, or \<^verbatim>\<open>None\<close> where the code stores
  a missing API key as it is; \<^verbatim>\<open>f"Bearer {api_key}"\<close> prints a missing key as
  \<^verbatim>\<open>None\<close>.
\<close>

definition get_headers :: "AIService \<Rightarrow> (string \<times> string option) list" where
  "get_headers svc =
     (let headers = [(''Content-Type'', Some ''application/json'')] in
      if AIService.provider svc = ''openai''
        then headers @ [(''Authorization'', Some (''Bearer '' @ py_str (api_key (config svc))))]
      else if AIService.provider svc = ''anthropic''
        then headers @ [(''x-api-key'', api_key (config svc)),
                        (''anthropic-version'', Some ''2023-06-01'')]
      else if AIService.provider svc = ''deepseek''
        then headers @ [(''Authorization'', Some (''Bearer '' @ py_str (api_key (config svc))))]
      else headers)"

text \<open>The dict \<^verbatim>\<open>replacements\<close> of \<^verbatim>\<open>_build_prompt\<close>, in the order it is written.\<close>

definition replacements :: "EquipmentData \<Rightarrow> (string \<times> string) list" where
  "replacements data =
     [(''{hostname}'', or_unknown (hostname data)),
      (''{ip_address}'', or_unknown (ip_address data)),
      (''{mac_address}'', or_unknown (mac_address data)),
      (''{os}'', or_unknown (os data)),
      (''{os_version}'', or_unknown (os_version data)),
      (''{asset_type}'', or_unknown (asset_type data)),
      (''{manufacturer}'', or_unknown (manufacturer data)),
      (''{model}'', or_unknown (EquipmentData.model data)),
      (''{serial_number}'', or_unknown (serial_number data)),
      (''{location}'', or_unknown (location data)),
      (''{department}'', or_unknown (department data)),
      (''{owner}'', or_unknown (owner data)),
      (''{tags}'', if tags data \<noteq> [] then str_join '', '' (tags data) else ''None''),
      (''{source}'', source data)]"

text \<open>The loop \<^verbatim>\<open>for old, new in replacements.items(): prompt = prompt.replace(old, new)\<close>\<close>

fun replace_all :: "(string \<times> string) list \<Rightarrow> string \<Rightarrow> string" where
  "replace_all [] prompt = prompt"
| "replace_all ((old, new) # rs) prompt = replace_all rs (str_replace old new prompt)"

definition build_prompt :: "AIService \<Rightarrow> EquipmentData \<Rightarrow> string" where
  "build_prompt svc data =
     replace_all (replacements data)
       (if prompt_template (config svc) \<noteq> [] then prompt_template (config svc)
        else DEFAULT_PROMPT)"

text \<open>The request body \<^verbatim>\<open>process_item\<close> builds for the provider.\<close>

definition build_payload :: "AIService \<Rightarrow> string \<Rightarrow> json" where
  "build_payload svc prompt =
     (let cfg = config svc in
      if AIService.provider svc = ''ollama'' then
        JObj [(''model'', JStr (model cfg)), (''prompt'', JStr prompt), (''stream'', JBool False),
              (''options'', JObj [(''temperature'', JFloat (temperature cfg)),
                                  (''num_predict'', JInt (max_tokens cfg))])]
      else if AIService.provider svc \<in> set [''openai'', ''groq'', ''deepseek''] then
        JObj [(''model'', JStr (model cfg)),
              (''messages'', JArr [JObj [(''role'', JStr ''user''), (''content'', JStr prompt)]]),
              (''temperature'', JFloat (temperature cfg)),
              (''max_tokens'', JInt (max_tokens cfg))]
      else if AIService.provider svc = ''anthropic'' then
        JObj [(''model'', JStr (model cfg)),
              (''prompt'', JStr (''\<newline>\<newline>Human: '' @ prompt @ ''\<newline>\<newline>Assistant:'')),
              (''temperature'', JFloat (temperature cfg)),
              (''max_tokens_to_sample'', JInt (max_tokens cfg))]
      else
        JObj [(''model'', JStr (model cfg)),
              (''messages'', JArr [JObj [(''role'', JStr ''user''), (''content'', JStr prompt)]]),
              (''temperature'', JFloat (temperature cfg))])"

text \<open>\<^verbatim>\<open>v[key]\<close> with a string key: only a dict takes it.\<close>

definition getitem_key :: "json \<Rightarrow> string \<Rightarrow> exception + json" where
  "getitem_key v k =
     (case v of
        JObj kvs \<Rightarrow> (case map_of kvs k of None \<Rightarrow> Inl (KeyError k) | Some x \<Rightarrow> Inr x)
      | _ \<Rightarrow> Inl TypeError)"

text \<open>
  \<^verbatim>\<open>v[0]\<close>: the first element of a list, the first character of a string; a dict
  decoded from JSON has string keys only, so \<open>0\<close> is no key of it.
\<close>

definition getitem_0 :: "json \<Rightarrow> exception + json" where
  "getitem_0 v =
     (case v of
        JArr xs \<Rightarrow> (case xs of [] \<Rightarrow> Inl IndexError | x # _ \<Rightarrow> Inr x)
      | JStr s \<Rightarrow> (case s of [] \<Rightarrow> Inl IndexError | c # _ \<Rightarrow> Inr (JStr [c]))
      | JObj kvs \<Rightarrow> Inl (KeyError ''0'')
      | _ \<Rightarrow> Inl TypeError)"

text \<open>
  The content of the response: \<^verbatim>\<open>result.get("response", "")\<close> for ollama (only a
  dict has \<^verbatim>\<open>get\<close>), \<^verbatim>\<open>result["choices"][0]["message"]["content"]\<close> otherwise.
\<close>

definition response_content :: "AIService \<Rightarrow> json \<Rightarrow> exception + json" where
  "response_content svc result =
     (if AIService.provider svc = ''ollama'' then
        (case result of
           JObj kvs \<Rightarrow> (case map_of kvs ''response'' of None \<Rightarrow> Inr (JStr []) | Some x \<Rightarrow> Inr x)
         | _ \<Rightarrow> Inl AttributeError)
      else
        and_then (getitem_key result ''choices'') (\<lambda>choices.
        and_then (getitem_0 choices) (\<lambda>choice.
        and_then (getitem_key choice ''message'') (\<lambda>message.
        getitem_key message ''content''))))"

text \<open>
  \<^verbatim>\<open>content[content.find("{"):content.rfind("}") + 1]\<close> for a string \<open>content\<close>.
\<close>

definition json_content :: "string \<Rightarrow> string" where
  "json_content content =
     (let json_start = str_find ''{'' content;
          json_end = str_rfind ''}'' content + 1
      in str_slice content json_start json_end)"

text \<open>Only a string has \<^verbatim>\<open>find\<close>; any other content raises \<^verbatim>\<open>AttributeError\<close>.\<close>

definition extract_json :: "json \<Rightarrow> exception + string" where
  "extract_json content =
     (case content of JStr s \<Rightarrow> Inr (json_content s) | _ \<Rightarrow> Inl AttributeError)"

text \<open>\<^verbatim>\<open>Decision(v)\<close>: the member with that value, \<^verbatim>\<open>ValueError\<close> when there is none.\<close>

definition Decision_of :: "json \<Rightarrow> exception + Decision" where
  "Decision_of v =
     (if v = JStr ''approved'' then Inr APPROVE
      else if v = JStr ''rejected'' then Inr REJECT
      else if v = JStr ''pending'' then Inr PENDING
      else if v = JStr ''flag'' then Inr FLAG
      else Inl (ValueError v))"

text \<open>\<^verbatim>\<open>float(v)\<close>: a float is returned as it is.\<close>

definition py_float :: "runtime \<Rightarrow> json \<Rightarrow> exception + pyfloat" where
  "py_float rt v = (case v of JFloat f \<Rightarrow> Inr f | _ \<Rightarrow> float_conv rt v)"

text \<open>\<^verbatim>\<open>int(v)\<close>: an int is returned as it is, a bool as 0 or 1.\<close>

definition py_int :: "runtime \<Rightarrow> json \<Rightarrow> exception + int" where
  "py_int rt v =
     (case v of JInt n \<Rightarrow> Inr n | JBool b \<Rightarrow> Inr (if b then 1 else 0) | _ \<Rightarrow> int_conv rt v)"

text \<open>
  The validation pydantic runs in \<^verbatim>\<open>AIOutput(...)\<close> on the three fields that take a
  value of the parsed dict as it is: \<^verbatim>\<open>comments: str\<close>,
  \<^verbatim>\<open>suggested_tags: List[str]\<close> and \<^verbatim>\<open>suggested_asset_type: Optional[str]\<close>.
\<close>

definition validate_str :: "runtime \<Rightarrow> json \<Rightarrow> exception + string" where
  "validate_str rt v = (case v of JStr s \<Rightarrow> Inr s | _ \<Rightarrow> coerce_str rt v)"

fun validate_strs :: "runtime \<Rightarrow> json list \<Rightarrow> exception + string list" where
  "validate_strs rt [] = Inr []"
| "validate_strs rt (v # vs) =
     and_then (validate_str rt v) (\<lambda>s.
     and_then (validate_strs rt vs) (\<lambda>ss. Inr (s # ss)))"

definition validate_str_list :: "runtime \<Rightarrow> json \<Rightarrow> exception + string list" where
  "validate_str_list rt v =
     (case v of JArr vs \<Rightarrow> validate_strs rt vs
      | _ \<Rightarrow> Inl (LibraryError ''value is not a valid list''))"

definition validate_opt_str :: "runtime \<Rightarrow> json \<Rightarrow> exception + string option" where
  "validate_opt_str rt v =
     (case v of JNull \<Rightarrow> Inr None | _ \<Rightarrow> and_then (validate_str rt v) (\<lambda>s. Inr (Some s)))"

text \<open>\<^verbatim>\<open>parsed.get(key, default)\<close> on a dict.\<close>

definition dict_get :: "(string \<times> json) list \<Rightarrow> string \<Rightarrow> json \<Rightarrow> json" where
  "dict_get kvs k d = (case map_of kvs k of None \<Rightarrow> d | Some v \<Rightarrow> v)"

text \<open>
  The \<^verbatim>\<open>return AIOutput(...)\<close> of the \<^verbatim>\<open>try\<close> block. The arguments are evaluated in
  the order written (\<^verbatim>\<open>Decision\<close>, \<^verbatim>\<open>float\<close>, \<^verbatim>\<open>int\<close>), then pydantic validates
  the fields; only a dict has \<^verbatim>\<open>get\<close>.
\<close>

definition parse_output :: "runtime \<Rightarrow> json \<Rightarrow> exception + AIOutput" where
  "parse_output rt parsed =
     (case parsed of
        JObj kvs \<Rightarrow>
          and_then (Decision_of (dict_get kvs ''decision'' (JStr ''pending''))) (\<lambda>d.
          and_then (py_float rt (dict_get kvs ''confidence'' (JFloat (Finite 0.5)))) (\<lambda>f.
          and_then (py_int rt (dict_get kvs ''suggested_risk_score'' (JInt 0))) (\<lambda>i.
          and_then (validate_str rt (dict_get kvs ''comments'' (JStr []))) (\<lambda>c.
          and_then (validate_str_list rt (dict_get kvs ''suggested_tags'' (JArr []))) (\<lambda>ts.
          and_then (validate_opt_str rt (dict_get kvs ''suggested_asset_type'' JNull)) (\<lambda>a.
          Inr \<lparr>decision = d, comments = c, confidence = f, suggested_tags = ts,
               suggested_risk_score = i, suggested_asset_type = a\<rparr>))))))
      | _ \<Rightarrow> Inl AttributeError)"

text \<open>The body of the \<^verbatim>\<open>try\<close> block of \<^verbatim>\<open>AIService.process_item\<close>.\<close>

definition try_process_item :: "runtime \<Rightarrow> AIService \<Rightarrow> EquipmentData \<Rightarrow> exception + AIOutput" where
  "try_process_item rt svc data =
     (let prompt = build_prompt svc data;
          payload = build_payload svc prompt
      in and_then (http_post rt (provider_api_url (AIService.provider svc)) payload
                     (get_headers svc)) (\<lambda>result.
         and_then (response_content svc result) (\<lambda>content.
         and_then (extract_json content) (\<lambda>json_text.
         and_then (json_loads rt json_text) (\<lambda>parsed.
         parse_output rt parsed)))))"

text \<open>The \<^verbatim>\<open>except Exception as e\<close> branch.\<close>

definition failed_output :: "runtime \<Rightarrow> exception \<Rightarrow> AIOutput" where
  "failed_output rt e =
     \<lparr>decision = PENDING, comments = ''AI processing failed: '' @ exc_str rt e,
      confidence = Finite 0, suggested_tags = [], suggested_risk_score = 0,
      suggested_asset_type = None\<rparr>"

definition AIService_process_item :: "runtime \<Rightarrow> AIService \<Rightarrow> EquipmentData \<Rightarrow> AIOutput" where
  "AIService_process_item rt svc data =
     (case try_process_item rt svc data of Inr out \<Rightarrow> out | Inl e \<Rightarrow> failed_output rt e)"

section \<open>inventory.py: \<^verbatim>\<open>InventoryService\<close>\<close>

text \<open>
  The dict \<^verbatim>\<open>item\<close> that \<^verbatim>\<open>InventoryService.process_item\<close> builds. The two clock
  readings \<^verbatim>\<open>processed_at\<close> and \<^verbatim>\<open>last_seen\<close> are left out.
\<close>

record item_dict =
  tenant_id :: string
  source :: string
  external_id :: "string option"
  hostname :: "string option"
  ip_address :: "string option"
  mac_address :: "string option"
  os :: "string option"
  os_version :: "string option"
  asset_type :: "string option"
  manufacturer :: "string option"
  model :: "string option"
  serial_number :: "string option"
  location :: "string option"
  department :: "string option"
  owner :: "string option"
  tags :: "string list"
  risk_score :: int
  status :: string
  inventory_decision :: string
  inventory_comments :: string
  metadata :: "(string \<times> json) list"
  raw_data :: EquipmentData
  processed_by :: string

text \<open>
  The dict \<^verbatim>\<open>process_item\<close> returns; \<^verbatim>\<open>processing_time_ms\<close>, a difference of clock
  readings, is left out.
\<close>

record process_result =
  status :: string
  item :: item_dict
  ai_decision :: string
  comments :: string

text \<open>
  The service object. \<open>db\<close> is the database session it was given, of any type: no
  method of the class reads or writes it.
\<close>

record 'db InventoryService =
  db :: 'db
  tenant_id :: string
  ai_service :: "AIService option"

text \<open>\<^verbatim>\<open>InventoryService.__init__\<close>: \<^verbatim>\<open>AIService(ai_config) if ai_config else None\<close>\<close>

definition InventoryService_init :: "'db \<Rightarrow> string \<Rightarrow> AIConfig option \<Rightarrow> 'db InventoryService" where
  "InventoryService_init db_session tid ai_config =
     \<lparr>db = db_session, tenant_id = tid,
      ai_service = (case ai_config of None \<Rightarrow> None | Some cfg \<Rightarrow> Some (AIService_init cfg))\<rparr>"

text \<open>
  \<^verbatim>\<open>list(set(tags))\<close>: the elements without duplicates. Python fixes no order for
  them; the model keeps the order of the last occurrences, and nothing below depends on
  the order.
\<close>

definition list_set :: "string list \<Rightarrow> string list" where
  "list_set xs = remdups xs"

text \<open>\<^verbatim>\<open>a or b\<close> for optional strings: \<^verbatim>\<open>None\<close> and \<^verbatim>\<open>""\<close> are false.\<close>

definition or_else :: "string option \<Rightarrow> string option \<Rightarrow> string option" where
  "or_else a b = (case a of None \<Rightarrow> b | Some s \<Rightarrow> if s = [] then b else Some s)"

text \<open>The chain \<^verbatim>\<open>if ai_result.decision == Decision.APPROVE: ... else: ...\<close>\<close>

definition decision_status :: "Decision \<Rightarrow> string" where
  "decision_status d =
     (if d = APPROVE then ''approved''
      else if d = REJECT then ''rejected''
      else if d = FLAG then ''pending''
      else ''pending'')"

definition InventoryService_process_item ::
  "runtime \<Rightarrow> 'db InventoryService \<Rightarrow> EquipmentData \<Rightarrow> process_result" where
  "InventoryService_process_item rt self equipment =
     (let (status', comments', risk_score', tags', asset_type') =
        (case ai_service self of
           Some svc \<Rightarrow>
             let ai_result = AIService_process_item rt svc equipment in
             (decision_status (decision ai_result),
              AIOutput.comments ai_result,
              suggested_risk_score ai_result,
              EquipmentData.tags equipment @ suggested_tags ai_result,
              or_else (suggested_asset_type ai_result) (EquipmentData.asset_type equipment))
         | None \<Rightarrow>
             (''approved'', ''Auto-approved: No AI configuration'', 0,
              EquipmentData.tags equipment, EquipmentData.asset_type equipment));
          item' =
            \<lparr>item_dict.tenant_id = InventoryService.tenant_id self,
             source = EquipmentData.source equipment,
             external_id = EquipmentData.external_id equipment,
             hostname = EquipmentData.hostname equipment,
             ip_address = EquipmentData.ip_address equipment,
             mac_address = EquipmentData.mac_address equipment,
             os = EquipmentData.os equipment,
             os_version = EquipmentData.os_version equipment,
             asset_type = asset_type',
             manufacturer = EquipmentData.manufacturer equipment,
             model = EquipmentData.model equipment,
             serial_number = EquipmentData.serial_number equipment,
             location = EquipmentData.location equipment,
             department = EquipmentData.department equipment,
             owner = EquipmentData.owner equipment,
             tags = list_set tags',
             risk_score = risk_score',
             status = status',
             inventory_decision = comments',
             inventory_comments = comments',
             metadata = EquipmentData.metadata equipment,
             raw_data = equipment,
             processed_by = (if ai_service self \<noteq> None then ''ai'' else ''rule'')\<rparr>
      in \<lparr>process_result.status = ''success'', item = item', ai_decision = status',
          comments = comments'\<rparr>)"

text \<open>
  \<^verbatim>\<open>update_item\<close>: the body is the \<^verbatim>\<open>return\<close> alone. The service is returned with
  the result, as the method left it.
\<close>

definition update_item ::
  "'db InventoryService \<Rightarrow> string \<Rightarrow> (string \<times> string) list
     \<Rightarrow> 'db InventoryService \<times> (string \<times> string) list" where
  "update_item self item_id updates = (self, [(''status'', ''success'')])"

definition approve_item ::
  "'db InventoryService \<Rightarrow> string \<Rightarrow> string
     \<Rightarrow> 'db InventoryService \<times> (string \<times> string) list" where
  "approve_item self item_id comments' =
     update_item self item_id
       [(''status'', ''approved''), (''inventory_comments'', comments'),
        (''processed_by'', ''manual'')]"

definition reject_item ::
  "'db InventoryService \<Rightarrow> string \<Rightarrow> string
     \<Rightarrow> 'db InventoryService \<times> (string \<times> string) list" where
  "reject_item self item_id comments' =
     update_item self item_id
       [(''status'', ''rejected''), (''inventory_comments'', comments'),
        (''processed_by'', ''manual'')]"

section \<open>Notions of the specification\<close>

text \<open>
  The rank of a tenant type as the specification states it: root is 4, provider 3,
  customer 2, sub\_customer 1; every other string, and a missing type, is 0.
\<close>

definition rank :: "string option \<Rightarrow> nat" where
  "rank t =
     (if t = Some ''root'' then 4
      else if t = Some ''provider'' then 3
      else if t = Some ''customer'' then 2
      else if t = Some ''sub_customer'' then 1
      else 0)"

text \<open>
  The output the specification asks for on a failure: decision pending, confidence 0.0,
  and the comments carrying the reason.
\<close>

definition pending_failure :: "AIOutput \<Rightarrow> string \<Rightarrow> bool" where
  "pending_failure out reason \<longleftrightarrow>
     decision out = PENDING \<and> confidence out = Finite 0
     \<and> AIOutput.comments out = ''AI processing failed: '' @ reason"



section \<open>Example values\<close>

definition viewer_t1 :: user where
  "viewer_t1 =
     \<lparr>user_id = Some ''user-1'', user.tenant_id = Some ''t1'', tenant_type = Some ''customer'',
      role = Some ''viewer'', permissions = Some [''alerts:read''], is_super_admin = None,
      other_keys = []\<rparr>"

definition admin_t1 :: user where
  "admin_t1 =
     \<lparr>user_id = Some ''user-2'', user.tenant_id = Some ''t1'', tenant_type = Some ''customer'',
      role = Some ''admin'', permissions = Some [], is_super_admin = None, other_keys = []\<rparr>"

text \<open>
  A runtime for the examples: the backend answers \<open>response\<close> to every request,
  \<^verbatim>\<open>json.loads\<close> knows three texts, and the conversions refuse what they are asked.
\<close>

definition exc_text :: "exception \<Rightarrow> string" where
  "exc_text e =
     (case e of
        KeyError k \<Rightarrow> [CHR 0x27] @ k @ [CHR 0x27]
      | IndexError \<Rightarrow> ''list index out of range''
      | TypeError \<Rightarrow> ''bad operand type''
      | AttributeError \<Rightarrow> ''object has no attribute''
      | ValueError v \<Rightarrow> ''not a valid Decision''
      | LibraryError m \<Rightarrow> m)"

definition example_loads :: "string \<Rightarrow> exception + json" where
  "example_loads s =
     (if s = ''{\"decision\": \"flag\", \"suggested_tags\": [\"b\", \"c\"]}''
        then Inr (JObj [(''decision'', JStr ''flag''),
                        (''suggested_tags'', JArr [JStr ''b'', JStr ''c''])])
      else if s = ''{\"decision\": \"maybe\"}'' then Inr (JObj [(''decision'', JStr ''maybe'')])
      else if s = ''{}'' then Inr (JObj [])
      else Inl (LibraryError ''Expecting value''))"

definition example_runtime :: "exception + json \<Rightarrow> runtime" where
  "example_runtime response =
     \<lparr>http_post = (\<lambda>url payload headers. response),
      json_loads = example_loads,
      float_conv = (\<lambda>v. Inl TypeError),
      int_conv = (\<lambda>v. Inl TypeError),
      coerce_str = (\<lambda>v. Inl (LibraryError ''str type expected'')),
      exc_str = exc_text\<rparr>"

definition example_config :: AIConfig where
  "example_config =
     \<lparr>AIConfig.provider = ''Ollama'', api_url = None, api_key = None, model = ''llama3'',
      temperature = Finite 0.3, max_tokens = 1000, prompt_template = [], timeout_seconds = 30\<rparr>"

definition example_service :: AIService where
  "example_service = AIService_init example_config"

definition template_service :: "string \<Rightarrow> AIService" where
  "template_service template =
     AIService_init (example_config\<lparr>prompt_template := template\<rparr>)"

definition example_equipment :: EquipmentData where
  "example_equipment =
     \<lparr>EquipmentData.external_id = None, hostname = Some ''srv1'', ip_address = None,
      mac_address = None, os = Some ''Ubuntu'', os_version = None, asset_type = None,
      manufacturer = None, model = None, serial_number = None, location = None,
      department = None, owner = None, tags = [''a'', ''b''], metadata = [], source = ''n8n''\<rparr>"


definition example_inventory :: "unit InventoryService" where
  "example_inventory = InventoryService_init () ''t1'' (Some example_config)"

definition example_inventory_no_ai :: "unit InventoryService" where
  "example_inventory_no_ai = InventoryService_init () ''t1'' None"

definition flag_response :: "exception + json" where
  "flag_response =
     Inr (JObj [(''response'',
       JStr ''Sure: {\"decision\": \"flag\", \"suggested_tags\": [\"b\", \"c\"]} Done.'')])"

definition timeout_response :: "exception + json" where
  "timeout_response = Inl (LibraryError ''timed out'')"

definition prose_response :: "exception + json" where
  "prose_response = Inr (JObj [(''response'', JStr ''I cannot decide.'')])"

definition maybe_response :: "exception + json" where
  "maybe_response = Inr (JObj [(''response'', JStr ''{\"decision\": \"maybe\"}'')])"

section \<open>Tenant hierarchy\<close>

text \<open>
  C1. \<^verbatim>\<open>TenantHierarchy.can_access\<close> returns true exactly when the requester id equals
  the target id, or the requester type is root, or the requester is a provider and the
  target a customer or sub\_customer, or the requester is a customer and the target a
  sub\_customer. Every other case is false: provider to provider, a sub\_customer
  requester, an unrecognised requester type.
\<close>

theorem can_access_table:
  "can_access requester_id requester_type target_id target_type \<longleftrightarrow>
     requester_id = target_id
     \<or> requester_type = ''root''
     \<or> (requester_type = ''provider''
          \<and> (target_type = ''customer'' \<or> target_type = ''sub_customer''))
     \<or> (requester_type = ''customer'' \<and> target_type = ''sub_customer'')"
  by (simp add: can_access_def)

lemma hierarchy_get_rank: "hierarchy_get t = rank t"
  by (cases t) (simp_all add: hierarchy_get_def hierarchy_def rank_def)

lemma not_user_iff: "not_user cu \<longleftrightarrow> cu = None \<or> cu = Some empty_dict"
  by (cases cu) (simp_all add: not_user_def)

lemma truthy_str_rank: "\<not> truthy_str rl \<Longrightarrow> rank rl = 0"
  by (cases rl) (auto simp: truthy_str_def rank_def)

lemma viewer_t1_nonempty: "viewer_t1 \<noteq> empty_dict"
  by (simp add: viewer_t1_def empty_dict_def)

lemma admin_t1_nonempty: "admin_t1 \<noteq> empty_dict"
  by (simp add: admin_t1_def empty_dict_def)

text \<open>
  C10. The checker of \<^verbatim>\<open>require_tenant_access\<close> raises 401 exactly when no user is
  present (\<^verbatim>\<open>None\<close>, or the dict with no key), and for a user that is present it
  raises 403 exactly when the rank of the user's tenant type is below the rank of the
  required level, and returns the user otherwise. So a required level of rank 0 (a
  string outside the four, the empty string, or none) admits every user that is present,
  and a user whose tenant type has rank 0 is refused whenever one of the four levels is
  required.
\<close>

theorem require_tenant_access_rank:
  "(require_tenant_access required_level cu = Inl HTTP_401_UNAUTHORIZED
      \<longleftrightarrow> cu = None \<or> cu = Some empty_dict)
   \<and> (u \<noteq> empty_dict \<longrightarrow>
        require_tenant_access required_level (Some u) =
          (if rank (tenant_type u) < rank required_level then Inl HTTP_403_FORBIDDEN
           else Inr u))
   \<and> (u \<noteq> empty_dict \<longrightarrow> rank required_level = 0 \<longrightarrow>
        require_tenant_access required_level (Some u) = Inr u)
   \<and> (u \<noteq> empty_dict \<longrightarrow> rank (tenant_type u) = 0 \<longrightarrow> 0 < rank required_level \<longrightarrow>
        require_tenant_access required_level (Some u) = Inl HTTP_403_FORBIDDEN)"
proof -
  have gate: "truthy_str required_level \<and> rank t < rank required_level
                \<longleftrightarrow> rank t < rank required_level" for t
    using truthy_str_rank [of required_level] by (cases "truthy_str required_level") auto
  have some: "require_tenant_access required_level (Some u) =
          (if rank (tenant_type u) < rank required_level then Inl HTTP_403_FORBIDDEN
           else Inr u)" if "u \<noteq> empty_dict"
    using that by (simp add: require_tenant_access_def not_user_iff hierarchy_get_rank gate)
  have unauth: "require_tenant_access required_level cu = Inl HTTP_401_UNAUTHORIZED
      \<longleftrightarrow> cu = None \<or> cu = Some empty_dict"
    by (simp add: require_tenant_access_def not_user_iff Let_def)
  show ?thesis using some unauth by simp
qed

text \<open>
  A customer-level user is refused where a provider is required, admitted where a
  customer is required or where the level is no known one; the empty dict is
  unauthenticated.
\<close>

theorem require_tenant_access_rank_witness:
  "viewer_t1 \<noteq> empty_dict
   \<and> rank (tenant_type viewer_t1) = 2 \<and> rank (Some ''provider'') = 3 \<and> rank (Some ''admins'') = 0
   \<and> require_tenant_access (Some ''provider'') (Some viewer_t1) = Inl HTTP_403_FORBIDDEN
   \<and> require_tenant_access (Some ''customer'') (Some viewer_t1) = Inr viewer_t1
   \<and> require_tenant_access (Some ''admins'') (Some viewer_t1) = Inr viewer_t1
   \<and> require_tenant_access (Some ''provider'') (Some empty_dict) = Inl HTTP_401_UNAUTHORIZED"
  using require_tenant_access_rank [of "Some ''provider''" "Some empty_dict" viewer_t1]
    require_tenant_access_rank [of "Some ''customer''" None viewer_t1]
    require_tenant_access_rank [of "Some ''admins''" None viewer_t1]
  by (simp add: viewer_t1_nonempty rank_def) (simp add: viewer_t1_def)

section \<open>Permission checks\<close>

lemma list_ex_mem: "list_ex (\<lambda>p. p \<in> S) ps \<longleftrightarrow> (\<exists>p\<in>set ps. p \<in> S)"
  by (simp add: list_ex_iff)

lemma list_all_mem: "list_all (\<lambda>p. p \<in> S) ps \<longleftrightarrow> (\<forall>p\<in>set ps. p \<in> S)"
  by (simp add: list_all_iff)

text \<open>
  The three inner functions, taken by themselves, do what the specification says of the
  checkers: 401 exactly when no principal is present (\<^verbatim>\<open>None\<close>, or the dict with no
  key); for a principal that is present, 403 exactly when the role is not admin and the
  permission is not held (single), none of the listed ones is held (any-of), or one of
  the listed ones is missing (all-of); the principal is returned otherwise.
\<close>

lemma permission_checker_bodies:
  "(permission_checker permission cu = Inl HTTP_401_UNAUTHORIZED
      \<longleftrightarrow> cu = None \<or> cu = Some empty_dict)
   \<and> (any_permission_checker perms cu = Inl HTTP_401_UNAUTHORIZED
      \<longleftrightarrow> cu = None \<or> cu = Some empty_dict)
   \<and> (all_permissions_checker perms cu = Inl HTTP_401_UNAUTHORIZED
      \<longleftrightarrow> cu = None \<or> cu = Some empty_dict)
   \<and> (u \<noteq> empty_dict \<longrightarrow>
        permission_checker permission (Some u) =
          (if role u \<noteq> Some ''admin'' \<and> permission \<notin> set (user_permissions u)
           then Inl HTTP_403_FORBIDDEN else Inr u))
   \<and> (u \<noteq> empty_dict \<longrightarrow>
        any_permission_checker perms (Some u) =
          (if role u \<noteq> Some ''admin'' \<and> (\<forall>p \<in> set perms. p \<notin> set (user_permissions u))
           then Inl HTTP_403_FORBIDDEN else Inr u))
   \<and> (u \<noteq> empty_dict \<longrightarrow>
        all_permissions_checker perms (Some u) =
          (if role u \<noteq> Some ''admin'' \<and> (\<exists>p \<in> set perms. p \<notin> set (user_permissions u))
           then Inl HTTP_403_FORBIDDEN else Inr u))
   \<and> (u \<noteq> empty_dict \<longrightarrow> role u = Some ''admin'' \<longrightarrow>
        permission_checker permission (Some u) = Inr u
        \<and> any_permission_checker perms (Some u) = Inr u
        \<and> all_permissions_checker perms (Some u) = Inr u)"
proof -
  have one: "permission_checker permission cu = Inl HTTP_401_UNAUTHORIZED
      \<longleftrightarrow> cu = None \<or> cu = Some empty_dict"
    by (simp add: permission_checker_def not_user_iff Let_def)
  have any: "any_permission_checker perms cu = Inl HTTP_401_UNAUTHORIZED
      \<longleftrightarrow> cu = None \<or> cu = Some empty_dict"
    by (simp add: any_permission_checker_def not_user_iff Let_def)
  have all: "all_permissions_checker perms cu = Inl HTTP_401_UNAUTHORIZED
      \<longleftrightarrow> cu = None \<or> cu = Some empty_dict"
    by (simp add: all_permissions_checker_def not_user_iff Let_def)
  have one': "permission_checker permission (Some u) =
          (if role u \<noteq> Some ''admin'' \<and> permission \<notin> set (user_permissions u)
           then Inl HTTP_403_FORBIDDEN else Inr u)" if "u \<noteq> empty_dict"
    using that by (simp add: permission_checker_def not_user_iff)
  have any': "any_permission_checker perms (Some u) =
          (if role u \<noteq> Some ''admin'' \<and> (\<forall>p \<in> set perms. p \<notin> set (user_permissions u))
           then Inl HTTP_403_FORBIDDEN else Inr u)" if "u \<noteq> empty_dict"
    using that by (simp add: any_permission_checker_def not_user_iff list_ex_mem)
  have all': "all_permissions_checker perms (Some u) =
          (if role u \<noteq> Some ''admin'' \<and> (\<exists>p \<in> set perms. p \<notin> set (user_permissions u))
           then Inl HTTP_403_FORBIDDEN else Inr u)" if "u \<noteq> empty_dict"
    using that by (simp add: all_permissions_checker_def not_user_iff list_all_mem)
  show ?thesis
    using one any all one' any' all' by simp
qed

text \<open>
  C2. The claim is about the checkers that \<^verbatim>\<open>require_permission\<close>,
  \<^verbatim>\<open>require_any_permission\<close> and \<^verbatim>\<open>require_all_permissions\<close> return. As the module is
  written none of them returns a checker: each call stops with a \<^verbatim>\<open>NameError\<close> for
  \<^verbatim>\<open>Depends\<close>, which the module uses in the default of \<^verbatim>\<open>db\<close> and never imports.
  So no call yields 401, 403 or the principal.
\<close>

theorem require_permission_name_error:
  "require_permission permission = Inl (NameError ''Depends'')
   \<and> require_any_permission perms = Inl (NameError ''Depends'')
   \<and> require_all_permissions perms = Inl (NameError ''Depends'')"
  by (simp add: require_permission_def require_any_permission_def
      require_all_permissions_def default_db_def rbac_globals_def)

section \<open>Access to a resource\<close>

text \<open>
  C3, as amended. \<^verbatim>\<open>can_access_resource\<close> returns true exactly when the user is super
  admin, or the user's tenant id, printed as a string, equals the resource's tenant id
  and the user either has role admin or holds the permission. A user that is not super
  admin and whose tenant id differs from the resource's is refused, whatever its role
  and permissions.
\<close>

theorem can_access_resource_amended:
  "(can_access_resource u resource_tenant_id permission \<longleftrightarrow>
      is_super_admin u = Some True
      \<or> (py_str (user.tenant_id u) = resource_tenant_id
          \<and> (role u = Some ''admin'' \<or> permission \<in> set (user_permissions u))))
   \<and> (is_super_admin u \<noteq> Some True \<longrightarrow> py_str (user.tenant_id u) \<noteq> resource_tenant_id \<longrightarrow>
        \<not> can_access_resource u resource_tenant_id permission)"
proof -
  have "truthy_bool (is_super_admin u) \<longleftrightarrow> is_super_admin u = Some True"
    by (cases "is_super_admin u") (simp_all add: truthy_bool_def)
  then show ?thesis
    by (simp add: can_access_resource_def)
qed

text \<open>
  An admin of tenant t1 is refused on a resource of tenant t2 and admitted on one of t1;
  a viewer of t1 is admitted on t1 with a permission it holds and refused with one it
  does not hold.
\<close>

theorem can_access_resource_amended_witness:
  "is_super_admin admin_t1 \<noteq> Some True \<and> py_str (user.tenant_id admin_t1) \<noteq> ''t2''
   \<and> \<not> can_access_resource admin_t1 ''t2'' ''alerts:read''
   \<and> can_access_resource admin_t1 ''t1'' ''alerts:read''
   \<and> can_access_resource viewer_t1 ''t1'' ''alerts:read''
   \<and> \<not> can_access_resource viewer_t1 ''t1'' ''alerts:delete''"
  using can_access_resource_amended [of admin_t1 "''t2''" "''alerts:read''"]
    can_access_resource_amended [of admin_t1 "''t1''" "''alerts:read''"]
    can_access_resource_amended [of viewer_t1 "''t1''" "''alerts:read''"]
    can_access_resource_amended [of viewer_t1 "''t1''" "''alerts:delete''"]
  by (simp add: admin_t1_def viewer_t1_def py_str_def user_permissions_def)

text \<open>
  The claim as first stated, that an equal tenant id alone admits the user, fails for
  the viewer of tenant t1 asking for \<^verbatim>\<open>alerts:delete\<close> on a resource of t1: the tenant
  ids are equal and the function returns false.
\<close>

theorem can_access_resource_counterexample:
  "\<not> (can_access_resource viewer_t1 ''t1'' ''alerts:delete'' \<longleftrightarrow>
        is_super_admin viewer_t1 = Some True
        \<or> user.tenant_id viewer_t1 = Some ''t1''
        \<or> (role viewer_t1 = Some ''admin'' \<and> user.tenant_id viewer_t1 = Some ''t1''))"
  by (simp add: can_access_resource_def viewer_t1_def truthy_bool_def py_str_def
      user_permissions_def)

section \<open>Facts about the string operations\<close>

lemma str_find_absent: "c \<notin> set s \<Longrightarrow> str_find [c] s = -1"
  by (induction s) auto


lemma str_rfind_absent: "c \<notin> set s \<Longrightarrow> str_rfind [c] s = -1"
  by (induction s) auto

lemma str_rfind_last: "c \<notin> set post \<Longrightarrow> str_rfind [c] (xs @ c # post) = int (length xs)"
  by (induction xs) (auto simp: Let_def str_rfind_absent)



text \<open>
  With no \<^verbatim>\<open>{\<close> in the content, \<^verbatim>\<open>find\<close> returns \<open>-1\<close> and the slice starts
  at the last character: the text cut out is empty or the single \<^verbatim>\<open>}\<close>.
\<close>

lemma json_content_no_open:
  assumes "CHR ''{'' \<notin> set s"
  shows "json_content s = [] \<or> json_content s = ''}''"
proof -
  have f: "str_find ''{'' s = -1"
    using assms by (simp add: str_find_absent)
  show ?thesis
  proof (cases "CHR ''}'' \<in> set s")
    case False
    then have r: "str_rfind ''}'' s = -1" by (simp add: str_rfind_absent)
    have "json_content s = str_slice s (-1) 0"
      unfolding json_content_def Let_def f r by simp
    then show ?thesis
      by (simp add: str_slice_def slice_bound_def)
  next
    case True
    then obtain xs post where s: "s = xs @ CHR ''}'' # post" and post: "CHR ''}'' \<notin> set post"
      by (meson split_list_last)
    have r: "str_rfind ''}'' s = int (length xs)"
      unfolding s using post by (rule str_rfind_last)
    have jc: "json_content s = str_slice s (-1) (int (length xs) + 1)"
      unfolding json_content_def Let_def f r by simp
    have i: "slice_bound s (-1) = length xs + length post"
      by (simp add: slice_bound_def s)
    have j: "slice_bound s (int (length xs) + 1) = length xs + 1"
      by (simp add: slice_bound_def s nat_add_distrib)
    show ?thesis
    proof (cases post)
      case Nil
      then show ?thesis
        unfolding jc str_slice_def i j by (simp add: s)
    next
      case (Cons p ps)
      then show ?thesis
        unfolding jc str_slice_def i j by simp
    qed
  qed
qed





section \<open>The AI pipeline\<close>

lemma and_then_Inl [simp]: "and_then (Inl e) f = Inl e"
  by (simp add: and_then_def)

lemma and_then_Inr [simp]: "and_then (Inr x) f = f x"
  by (simp add: and_then_def)


lemma failed_output_pending: "pending_failure (failed_output rt e) (exc_str rt e)"
  by (simp add: pending_failure_def failed_output_def)

lemma process_item_failed:
  "try_process_item rt svc data = Inl e \<Longrightarrow>
     AIService_process_item rt svc data = failed_output rt e"
  by (simp add: AIService_process_item_def)

lemma Decision_of_invalid:
  "v \<notin> {JStr ''approved'', JStr ''rejected'', JStr ''pending'', JStr ''flag''} \<Longrightarrow>
     Decision_of v = Inl (ValueError v)"
  by (simp add: Decision_of_def)

lemma parse_output_invalid_decision:
  "map_of kvs ''decision'' = Some v \<Longrightarrow>
   v \<notin> {JStr ''approved'', JStr ''rejected'', JStr ''pending'', JStr ''flag''} \<Longrightarrow>
     parse_output rt (JObj kvs) = Inl (ValueError v)"
  by (simp add: parse_output_def dict_get_def Decision_of_invalid)

lemma decision_cases: "d \<in> {APPROVE, REJECT, PENDING, FLAG}"
  by (cases d) simp_all

lemma process_item_parsed:
  assumes "http_post rt (provider_api_url (AIService.provider svc))
         (build_payload svc (build_prompt svc data)) (get_headers svc) = r"
    and "r = Inr result"
    and "response_content svc result = Inr (JStr content)"
    and "json_loads rt (json_content content) = Inr parsed"
    and "parse_output rt parsed = Inr out"
  shows "AIService_process_item rt svc data = out"
  using assms
  by (simp add: AIService_process_item_def try_process_item_def Let_def extract_json_def)




subsection \<open>The examples\<close>

lemma example_service_provider [simp]: "AIService.provider example_service = ''ollama''"
  by (simp add: example_service_def AIService_init_def example_config_def lower_char_def)

lemma example_http_post [simp]: "http_post (example_runtime r) url payload headers = r"
  by (simp add: example_runtime_def)

lemma example_json_loads [simp]: "json_loads (example_runtime r) = example_loads"
  by (simp add: example_runtime_def)

lemma example_exc_str [simp]: "exc_str (example_runtime r) = exc_text"
  by (simp add: example_runtime_def)

lemma template_service_template [simp]:
  "prompt_template (config (template_service template)) = template"
  by (simp add: template_service_def AIService_init_def)

lemma response_content_ollama:
  "AIService.provider svc = ''ollama'' \<Longrightarrow>
     response_content svc (JObj [(''response'', v)]) = Inr v"
  by (simp add: response_content_def)

lemma flag_content:
  "json_content ''Sure: {\"decision\": \"flag\", \"suggested_tags\": [\"b\", \"c\"]} Done.''
     = ''{\"decision\": \"flag\", \"suggested_tags\": [\"b\", \"c\"]}''"
  by code_simp

lemma prose_content: "json_content ''I cannot decide.'' = []"
  by code_simp

lemma maybe_content: "json_content ''{\"decision\": \"maybe\"}'' = ''{\"decision\": \"maybe\"}''"
  by code_simp

lemma flag_parsed:
  "parse_output rt (JObj [(''decision'', JStr ''flag''),
      (''suggested_tags'', JArr [JStr ''b'', JStr ''c''])]) =
     Inr \<lparr>decision = FLAG, comments = [], confidence = Finite 0.5,
          suggested_tags = [''b'', ''c''], suggested_risk_score = 0,
          suggested_asset_type = None\<rparr>"
  by (simp add: parse_output_def dict_get_def Decision_of_def py_float_def py_int_def
      validate_str_def validate_str_list_def validate_opt_str_def)

lemma flag_output:
  "AIService_process_item (example_runtime flag_response) example_service data =
     \<lparr>decision = FLAG, comments = [], confidence = Finite 0.5,
      suggested_tags = [''b'', ''c''], suggested_risk_score = 0,
      suggested_asset_type = None\<rparr>"
proof (rule process_item_parsed)
  show "http_post (example_runtime flag_response)
      (provider_api_url (AIService.provider example_service))
      (build_payload example_service (build_prompt example_service data))
      (get_headers example_service) = flag_response"
    by simp
  show "flag_response = Inr (JObj [(''response'',
       JStr ''Sure: {\"decision\": \"flag\", \"suggested_tags\": [\"b\", \"c\"]} Done.'')])"
    by (simp add: flag_response_def)
  show "response_content example_service (JObj [(''response'',
       JStr ''Sure: {\"decision\": \"flag\", \"suggested_tags\": [\"b\", \"c\"]} Done.'')])
      = Inr (JStr ''Sure: {\"decision\": \"flag\", \"suggested_tags\": [\"b\", \"c\"]} Done.'')"
    by (simp add: response_content_ollama)
  show "json_loads (example_runtime flag_response)
      (json_content ''Sure: {\"decision\": \"flag\", \"suggested_tags\": [\"b\", \"c\"]} Done.'')
      = Inr (JObj [(''decision'', JStr ''flag''),
         (''suggested_tags'', JArr [JStr ''b'', JStr ''c''])])"
    by (simp add: flag_content example_loads_def)
  show "parse_output (example_runtime flag_response) (JObj [(''decision'', JStr ''flag''),
         (''suggested_tags'', JArr [JStr ''b'', JStr ''c''])]) =
     Inr \<lparr>decision = FLAG, comments = [], confidence = Finite 0.5,
      suggested_tags = [''b'', ''c''], suggested_risk_score = 0,
      suggested_asset_type = None\<rparr>"
    by (rule flag_parsed)
qed

lemma example_ai_service: "ai_service example_inventory = Some example_service"
  by (simp add: example_inventory_def InventoryService_init_def example_service_def)

lemma example_no_ai_service: "ai_service example_inventory_no_ai = None"
  by (simp add: example_inventory_no_ai_def InventoryService_init_def)

subsection \<open>Failures end in a pending output\<close>

text \<open>
  C4. \<^verbatim>\<open>AIService.process_item\<close> returns an output for every record, runtime and
  configuration: an exception of the \<^verbatim>\<open>try\<close> block is a value of the block, and the
  function maps it to an output. Whatever the exception \<open>e\<close>, the output then has
  decision pending, confidence 0.0 and the comments \<^verbatim>\<open>AI processing failed: \<close> followed
  by \<^verbatim>\<open>str(e)\<close>. This is shown for any exception of the block, and for each source the
  claim names: the request (no connection, a time-out, a status that is not 2xx, a body
  that is no JSON), the envelope of the response, \<^verbatim>\<open>json.loads\<close> on the text cut out
  of the content, and a decision that is none of the four values. A content without
  \<^verbatim>\<open>{\<close> hands \<^verbatim>\<open>json.loads\<close> the empty text or a lone \<^verbatim>\<open>}\<close>. The decision returned
  is always one of the four, and it is approved only when the block ended without an
  exception, with that decision. (Only exceptions that derive from \<^verbatim>\<open>Exception\<close> are
  modelled; the cancellation of the task is outside the model.)
\<close>

theorem AIService_process_item_failsafe:
  "(try_process_item rt svc data = Inl e \<longrightarrow>
      pending_failure (AIService_process_item rt svc data) (exc_str rt e))
   \<and> (http_post rt (provider_api_url (AIService.provider svc))
         (build_payload svc (build_prompt svc data)) (get_headers svc) = Inl e \<longrightarrow>
      pending_failure (AIService_process_item rt svc data) (exc_str rt e))
   \<and> (http_post rt (provider_api_url (AIService.provider svc))
         (build_payload svc (build_prompt svc data)) (get_headers svc) = Inr result \<longrightarrow>
      response_content svc result = Inl e \<longrightarrow>
      pending_failure (AIService_process_item rt svc data) (exc_str rt e))
   \<and> (http_post rt (provider_api_url (AIService.provider svc))
         (build_payload svc (build_prompt svc data)) (get_headers svc) = Inr result \<longrightarrow>
      response_content svc result = Inr (JStr content) \<longrightarrow>
      json_loads rt (json_content content) = Inl e \<longrightarrow>
      pending_failure (AIService_process_item rt svc data) (exc_str rt e))
   \<and> (http_post rt (provider_api_url (AIService.provider svc))
         (build_payload svc (build_prompt svc data)) (get_headers svc) = Inr result \<longrightarrow>
      response_content svc result = Inr (JStr content) \<longrightarrow>
      json_loads rt (json_content content) = Inr (JObj kvs) \<longrightarrow>
      map_of kvs ''decision'' = Some v \<longrightarrow>
      v \<notin> {JStr ''approved'', JStr ''rejected'', JStr ''pending'', JStr ''flag''} \<longrightarrow>
      pending_failure (AIService_process_item rt svc data)
        (exc_str rt (ValueError v)))
   \<and> (CHR ''{'' \<notin> set content \<longrightarrow> json_content content = [] \<or> json_content content = ''}'')
   \<and> decision (AIService_process_item rt svc data) \<in> {APPROVE, REJECT, PENDING, FLAG}
   \<and> (decision (AIService_process_item rt svc data) = APPROVE \<longrightarrow>
        (\<exists>out. try_process_item rt svc data = Inr out \<and> decision out = APPROVE))"
proof -
  let ?post = "http_post rt (provider_api_url (AIService.provider svc))
         (build_payload svc (build_prompt svc data)) (get_headers svc)"
  have body: "try_process_item rt svc data =
      and_then ?post (\<lambda>result.
      and_then (response_content svc result) (\<lambda>content.
      and_then (extract_json content) (\<lambda>json_text.
      and_then (json_loads rt json_text) (\<lambda>parsed. parse_output rt parsed))))"
    by (simp add: try_process_item_def Let_def)
  have fail: "pending_failure (AIService_process_item rt svc data) (exc_str rt x)"
    if "try_process_item rt svc data = Inl x" for x
    using that by (simp add: process_item_failed failed_output_pending)
  have c2: "pending_failure (AIService_process_item rt svc data) (exc_str rt e)"
    if "?post = Inl e"
    using that by (intro fail) (simp add: body)
  have c3: "pending_failure (AIService_process_item rt svc data) (exc_str rt e)"
    if "?post = Inr result" "response_content svc result = Inl e"
    using that by (intro fail) (simp add: body)
  have c4: "pending_failure (AIService_process_item rt svc data) (exc_str rt e)"
    if "?post = Inr result" "response_content svc result = Inr (JStr content)"
      "json_loads rt (json_content content) = Inl e"
    using that by (intro fail) (simp add: body extract_json_def)
  have c5: "pending_failure (AIService_process_item rt svc data)
        (exc_str rt (ValueError v))"
    if "?post = Inr result" "response_content svc result = Inr (JStr content)"
      "json_loads rt (json_content content) = Inr (JObj kvs)"
      "map_of kvs ''decision'' = Some v"
      "v \<notin> {JStr ''approved'', JStr ''rejected'', JStr ''pending'', JStr ''flag''}"
    using that by (intro fail) (simp add: body extract_json_def parse_output_invalid_decision)
  have c7: "\<exists>out. try_process_item rt svc data = Inr out \<and> decision out = APPROVE"
    if "decision (AIService_process_item rt svc data) = APPROVE"
  proof (cases "try_process_item rt svc data")
    case (Inl x)
    with that show ?thesis
      by (simp add: AIService_process_item_def failed_output_def)
  next
    case (Inr out)
    with that show ?thesis
      by (simp add: AIService_process_item_def)
  qed
  have c6: "json_content content = [] \<or> json_content content = ''}''"
    if "CHR ''{'' \<notin> set content"
    using that by (rule json_content_no_open)
  show ?thesis
    using fail c2 c3 c4 c5 c6 c7 decision_cases by blast
qed

text \<open>
  A backend that times out, a content that holds no JSON, and a decision
  \<^verbatim>\<open>maybe\<close>: each gives the pending output with its reason; a well-formed answer
  gives its decision.
\<close>

theorem AIService_process_item_failsafe_witness:
  "http_post (example_runtime timeout_response)
      (provider_api_url (AIService.provider example_service))
      (build_payload example_service (build_prompt example_service example_equipment))
      (get_headers example_service) = Inl (LibraryError ''timed out'')
   \<and> pending_failure
        (AIService_process_item (example_runtime timeout_response) example_service
           example_equipment) ''timed out''
   \<and> CHR ''{'' \<notin> set ''I cannot decide.'' \<and> json_content ''I cannot decide.'' = []
   \<and> json_loads (example_runtime prose_response) (json_content ''I cannot decide.'')
        = Inl (LibraryError ''Expecting value'')
   \<and> pending_failure
        (AIService_process_item (example_runtime prose_response) example_service
           example_equipment) ''Expecting value''
   \<and> json_loads (example_runtime maybe_response) (json_content ''{\"decision\": \"maybe\"}'')
        = Inr (JObj [(''decision'', JStr ''maybe'')])
   \<and> pending_failure
        (AIService_process_item (example_runtime maybe_response) example_service
           example_equipment) ''not a valid Decision''
   \<and> decision (AIService_process_item (example_runtime flag_response) example_service
        example_equipment) = FLAG"
proof -
  have a: "pending_failure
        (AIService_process_item (example_runtime timeout_response) example_service
           example_equipment) ''timed out''"
    using AIService_process_item_failsafe [of "example_runtime timeout_response"
        example_service example_equipment "LibraryError ''timed out''"]
    by (simp add: timeout_response_def exc_text_def)
  have b: "pending_failure
        (AIService_process_item (example_runtime prose_response) example_service
           example_equipment) ''Expecting value''"
    using AIService_process_item_failsafe [of "example_runtime prose_response"
        example_service example_equipment "LibraryError ''Expecting value''"
        "JObj [(''response'', JStr ''I cannot decide.'')]" "''I cannot decide.''"]
    by (simp add: prose_response_def exc_text_def response_content_ollama prose_content
        example_loads_def)
  have c: "pending_failure
        (AIService_process_item (example_runtime maybe_response) example_service
           example_equipment) ''not a valid Decision''"
    using AIService_process_item_failsafe [of "example_runtime maybe_response"
        example_service example_equipment "TypeError"
        "JObj [(''response'', JStr ''{\"decision\": \"maybe\"}'')]" "''{\"decision\": \"maybe\"}''"
        "[(''decision'', JStr ''maybe'')]" "JStr ''maybe''"]
    by (simp add: maybe_response_def exc_text_def response_content_ollama maybe_content
        example_loads_def)
  show ?thesis
    using a b c
    by (simp add: timeout_response_def prose_content maybe_content example_loads_def flag_output)
qed

subsection \<open>The parsed output and its defaults\<close>



section \<open>The prompt\<close>









section \<open>The inventory service\<close>

lemma set_list_set [simp]: "set (list_set xs) = set xs"
  by (simp add: list_set_def)

lemma distinct_list_set [simp]: "distinct (list_set xs)"
  by (simp add: list_set_def)

lemma decision_status_map:
  "decision_status d =
     (case d of APPROVE \<Rightarrow> ''approved'' | REJECT \<Rightarrow> ''rejected''
      | PENDING \<Rightarrow> ''pending'' | FLAG \<Rightarrow> ''pending'')"
  by (cases d) (simp_all add: decision_status_def)

lemma process_item_with_ai:
  assumes "ai_service self = Some svc"
  shows "item_dict.status (item (InventoryService_process_item rt self equipment))
           = decision_status (decision (AIService_process_item rt svc equipment))"
    and "processed_by (item (InventoryService_process_item rt self equipment)) = ''ai''"
    and "item_dict.tags (item (InventoryService_process_item rt self equipment))
           = list_set (EquipmentData.tags equipment
               @ suggested_tags (AIService_process_item rt svc equipment))"
  using assms by (simp_all add: InventoryService_process_item_def Let_def)

lemma process_item_without_ai:
  assumes "ai_service self = None"
  shows "item_dict.status (item (InventoryService_process_item rt self equipment)) = ''approved''"
    and "processed_by (item (InventoryService_process_item rt self equipment)) = ''rule''"
    and "inventory_comments (item (InventoryService_process_item rt self equipment))
           = ''Auto-approved: No AI configuration''"
    and "process_result.comments (InventoryService_process_item rt self equipment)
           = ''Auto-approved: No AI configuration''"
    and "risk_score (item (InventoryService_process_item rt self equipment)) = 0"
    and "item_dict.tags (item (InventoryService_process_item rt self equipment))
           = list_set (EquipmentData.tags equipment)"
  using assms by (simp_all add: InventoryService_process_item_def Let_def)

text \<open>
  C5. With an AI service configured, the status of the item is the image of the AI
  decision under approved to \<^verbatim>\<open>approved\<close>, rejected to \<^verbatim>\<open>rejected\<close>, pending and flag
  to \<^verbatim>\<open>pending\<close>, and the item is processed by \<^verbatim>\<open>ai\<close>. With none configured, the
  status is \<^verbatim>\<open>approved\<close>, the item is processed by \<^verbatim>\<open>rule\<close>, the comments are
  \<^verbatim>\<open>Auto-approved: No AI configuration\<close> and the risk score is 0.
\<close>

theorem process_item_status:
  "(ai_service self = Some svc \<longrightarrow>
      item_dict.status (item (InventoryService_process_item rt self equipment)) =
        (case decision (AIService_process_item rt svc equipment) of
           APPROVE \<Rightarrow> ''approved'' | REJECT \<Rightarrow> ''rejected''
         | PENDING \<Rightarrow> ''pending'' | FLAG \<Rightarrow> ''pending'')
      \<and> processed_by (item (InventoryService_process_item rt self equipment)) = ''ai'')
   \<and> (ai_service self = None \<longrightarrow>
      item_dict.status (item (InventoryService_process_item rt self equipment)) = ''approved''
      \<and> processed_by (item (InventoryService_process_item rt self equipment)) = ''rule''
      \<and> inventory_comments (item (InventoryService_process_item rt self equipment))
           = ''Auto-approved: No AI configuration''
      \<and> process_result.comments (InventoryService_process_item rt self equipment)
           = ''Auto-approved: No AI configuration''
      \<and> risk_score (item (InventoryService_process_item rt self equipment)) = 0)"
  using process_item_with_ai(1,2) [of self svc rt equipment]
    process_item_without_ai(1-5) [of self rt equipment]
  by (simp add: decision_status_map)

text \<open>
  A flagged item is pending and processed by the AI; without AI the same item is
  approved by rule.
\<close>

theorem process_item_status_witness:
  "ai_service example_inventory = Some example_service
   \<and> decision (AIService_process_item (example_runtime flag_response) example_service
        example_equipment) = FLAG
   \<and> item_dict.status (item (InventoryService_process_item (example_runtime flag_response)
        example_inventory example_equipment)) = ''pending''
   \<and> processed_by (item (InventoryService_process_item (example_runtime flag_response)
        example_inventory example_equipment)) = ''ai''
   \<and> ai_service example_inventory_no_ai = None
   \<and> item_dict.status (item (InventoryService_process_item (example_runtime flag_response)
        example_inventory_no_ai example_equipment)) = ''approved''
   \<and> processed_by (item (InventoryService_process_item (example_runtime flag_response)
        example_inventory_no_ai example_equipment)) = ''rule''
   \<and> risk_score (item (InventoryService_process_item (example_runtime flag_response)
        example_inventory_no_ai example_equipment)) = 0"
  using process_item_status [of example_inventory example_service
      "example_runtime flag_response" example_equipment]
    process_item_status [of example_inventory_no_ai example_service
      "example_runtime flag_response" example_equipment]
  by (simp add: example_ai_service example_no_ai_service flag_output)

text \<open>
  C8. With an AI service configured, the tags of the item are, as a set, the union of
  the equipment's tags and the AI-suggested tags, and no tag occurs twice in them; when
  the two lists hold the same tags, the item holds exactly these.
\<close>

theorem tags_merged:
  "(ai_service self = Some svc \<longrightarrow>
      set (item_dict.tags (item (InventoryService_process_item rt self equipment)))
        = set (EquipmentData.tags equipment)
          \<union> set (suggested_tags (AIService_process_item rt svc equipment))
      \<and> distinct (item_dict.tags (item (InventoryService_process_item rt self equipment))))
   \<and> (ai_service self = Some svc \<longrightarrow>
      set (suggested_tags (AIService_process_item rt svc equipment))
        = set (EquipmentData.tags equipment) \<longrightarrow>
      set (item_dict.tags (item (InventoryService_process_item rt self equipment)))
        = set (EquipmentData.tags equipment))"
  using process_item_with_ai(3) [of self svc rt equipment]
  by auto

text \<open>
  The tags a, b merged with the suggested b, c are a, b, c; the tags c, b, c merged with
  b, c are b, c.
\<close>

theorem tags_merged_witness:
  "ai_service example_inventory = Some example_service
   \<and> EquipmentData.tags example_equipment = [''a'', ''b'']
   \<and> suggested_tags (AIService_process_item (example_runtime flag_response) example_service
        example_equipment) = [''b'', ''c'']
   \<and> set (item_dict.tags (item (InventoryService_process_item (example_runtime flag_response)
        example_inventory example_equipment))) = {''a'', ''b'', ''c''}
   \<and> distinct (item_dict.tags (item (InventoryService_process_item
        (example_runtime flag_response) example_inventory example_equipment)))
   \<and> set (suggested_tags (AIService_process_item (example_runtime flag_response)
        example_service (example_equipment\<lparr>EquipmentData.tags := [''c'', ''b'', ''c'']\<rparr>)))
       = set (EquipmentData.tags (example_equipment\<lparr>EquipmentData.tags := [''c'', ''b'', ''c'']\<rparr>))
   \<and> set (item_dict.tags (item (InventoryService_process_item (example_runtime flag_response)
        example_inventory (example_equipment\<lparr>EquipmentData.tags := [''c'', ''b'', ''c'']\<rparr>))))
       = {''b'', ''c''}"
  using tags_merged [of example_inventory example_service "example_runtime flag_response"
      example_equipment]
    tags_merged [of example_inventory example_service "example_runtime flag_response"
      "example_equipment\<lparr>EquipmentData.tags := [''c'', ''b'', ''c'']\<rparr>"]
  by (auto simp: example_ai_service flag_output example_equipment_def)

text \<open>
  C9. \<^verbatim>\<open>approve_item\<close> and \<^verbatim>\<open>reject_item\<close> hand their update to \<^verbatim>\<open>update_item\<close>,
  whose body is the \<^verbatim>\<open>return\<close> of \<^verbatim>\<open>{"status": "success"}\<close> alone: the service and
  its session are as before, the answer is the same for an approval and a rejection, and
  it holds neither the status asked for, nor the comments, nor who processed the item.
\<close>

theorem manual_decision_not_stored:
  "approve_item self item_id comments' = (self, [(''status'', ''success'')])
   \<and> reject_item self item_id comments' = (self, [(''status'', ''success'')])
   \<and> approve_item self item_id comments' = reject_item self item_id comments'"
  by (simp add: approve_item_def reject_item_def update_item_def)

end
